theory Spec2Isabelle
  imports Main
begin

section \<open>Values shared by the two scripts\<close>

text \<open>
  A Python \<open>str\<close> is represented by its UTF-8 encoding, a \<open>bytes\<close> object by its
  bytes; both are lists of \<^typ>\<open>char\<close> (a \<^typ>\<open>char\<close> is one byte). The scripts
  only concatenate strings, search them for ASCII literals and delete an ASCII
  literal from them; on well-formed UTF-8 these operations agree with the ones on
  code points.
\<close>

type_synonym bytes = string

definition nl :: string where
  "nl = [CHR 0x0A]"

text \<open>
  The exceptions that occur. Every one is an instance of Python's \<open>Exception\<close>
  (the class the \<open>except\<close> clauses of both scripts name). \<open>Raised m\<close> is an
  exception raised by an SDK call, \<open>m\<close> being its \<open>str()\<close>: an SDK call is
  modelled by a result of type \<open>string + 'a\<close>, \<open>Inl m\<close> when it raises. The other
  constructors are raised by the interpreter itself.
\<close>

datatype exn =
    Raised string
  | UnicodeDecodeError bytes
  | IndexError
  | KeyError string

text \<open>
  What a script writes to standard output, one item per \<open>print\<close> call, in order.
  \<open>Out s\<close> is the text \<open>s\<close> (line ends included). \<open>OutExn p e\<close> is the line
  \<open>p + str(e)\<close> of an f-string that formats an exception; \<open>OutJson j\<close> is the line
  \<open>json.dumps(j, indent=2)\<close>.
\<close>

datatype json =
    JNull
  | JBool bool
  | JInt int
  | JStr string
  | JList "json list"
  | JObj "(string \<times> json) list"

datatype out =
    Out string
  | OutExn string exn
  | OutJson json

text \<open>How the interpreter leaves the script, and the exit status the shell sees.\<close>

datatype outcome =
    Returned
  | SysExit int
  | Uncaught exn

fun exit_status :: "outcome \<Rightarrow> int" where
  "exit_status Returned = 0"
| "exit_status (SysExit n) = n"
| "exit_status (Uncaught e) = 1"

text \<open>The calls a script makes into the SDKs, in order.\<close>

record invoke_args =
  agentId :: string
  agentAliasId :: string
  sessionId :: string
  inputText :: string

datatype call =
    Boto3Client string string
  | InvokeAgent invoke_args
  | BatchGetCollection "string list"
  | OpenSearchClient string nat
  | IndicesCreate string json

record run =
  stdout :: "out list"
  calls :: "call list"
  status :: outcome

section \<open>\<open>bytes.decode('utf-8')\<close>\<close>

text \<open>
  Strict UTF-8 as Python 3 decodes it: shortest forms only, no surrogates, nothing
  above U+10FFFF. \<open>trail_len\<close> is the number of continuation bytes a lead byte
  announces; \<open>second_range\<close> is the range of the first continuation byte.
\<close>

definition trail_len :: "nat \<Rightarrow> nat option" where
  "trail_len n =
     (if n < 0x80 then Some 0
      else if 0xC2 \<le> n \<and> n \<le> 0xDF then Some 1
      else if 0xE0 \<le> n \<and> n \<le> 0xEF then Some 2
      else if 0xF0 \<le> n \<and> n \<le> 0xF4 then Some 3
      else None)"

definition second_range :: "nat \<Rightarrow> nat \<times> nat" where
  "second_range n =
     (if n = 0xE0 then (0xA0, 0xBF)
      else if n = 0xED then (0x80, 0x9F)
      else if n = 0xF0 then (0x90, 0xBF)
      else if n = 0xF4 then (0x80, 0x8F)
      else (0x80, 0xBF))"

fun trail_ok :: "nat \<Rightarrow> nat list \<Rightarrow> bool" where
  "trail_ok n [] = True"
| "trail_ok n (t # ts) =
     (fst (second_range n) \<le> t \<and> t \<le> snd (second_range n)
      \<and> list_all (\<lambda>x. 0x80 \<le> x \<and> x \<le> 0xBF) ts)"

function utf8_valid :: "bytes \<Rightarrow> bool" where
  "utf8_valid [] = True"
| "utf8_valid (b # bs) =
     (case trail_len (of_char b) of
        None \<Rightarrow> False
      | Some k \<Rightarrow>
          k \<le> length bs \<and> trail_ok (of_char b) (map of_char (take k bs))
          \<and> utf8_valid (drop k bs))"
  by pat_completeness auto
termination
  by (relation "measure length") auto

definition decode_utf8 :: "bytes \<Rightarrow> exn + string" where
  "decode_utf8 b = (if utf8_valid b then Inr b else Inl (UnicodeDecodeError b))"

section \<open>The agent tester (\<open>test-agent.py\<close>)\<close>

text \<open>
  An event of the response stream is a dict; under the key \<open>chunk\<close> it holds a
  dict that may hold a \<open>bytes\<close> object under the key \<open>bytes\<close>. The values under
  other keys are never read. The stream \<open>response['completion']\<close> is an iterator:
  each \<open>next\<close> yields an event, ends the stream, or raises (\<open>Throw m\<close>).
\<close>

type_synonym chunk = "string \<rightharpoonup> bytes"
type_synonym event = "string \<rightharpoonup> chunk"

datatype event_stream =
    End
  | Yield event event_stream
  | Throw string

text \<open>
  The \<open>for\<close> loop of \<open>test_agent\<close>, on the pair of the local \<open>completion\<close> and the
  output written so far. It returns the exception that left the loop, if one did.
\<close>

fun for_events :: "event_stream \<Rightarrow> string \<times> out list \<Rightarrow> exn option \<times> string \<times> out list" where
  "for_events End (completion, out) = (None, completion, out)"
| "for_events (Throw m) (completion, out) = (Some (Raised m), completion, out)"
| "for_events (Yield event rest) (completion, out) =
     (case event ''chunk'' of
        None \<Rightarrow> for_events rest (completion, out)
      | Some chunk \<Rightarrow>
          (case chunk ''bytes'' of
             None \<Rightarrow> for_events rest (completion, out)
           | Some b \<Rightarrow>
               (case decode_utf8 b of
                  Inl e \<Rightarrow> (Some e, completion, out)
                | Inr text \<Rightarrow> for_events rest (completion @ text, out @ [Out text]))))"

text \<open>
  \<open>test_agent\<close>. The first argument is the agent behind \<open>client.invoke_agent\<close>: from
  the arguments of the call it gives the stream \<open>response['completion']\<close>, or the
  exception the call raises.
\<close>

definition test_agent ::
  "(invoke_args \<Rightarrow> string + event_stream) \<Rightarrow> string \<Rightarrow> string \<Rightarrow> string \<Rightarrow> run" where
  "test_agent invoke_agent agent_id alias_id question =
     (let args = \<lparr>agentId = agent_id, agentAliasId = alias_id,
                  sessionId = ''test-session-123'', inputText = question\<rparr>;
          cs = [Boto3Client ''bedrock-agent-runtime'' ''eu-west-1'', InvokeAgent args];
          out0 = [Out (''Testing Agent...'' @ nl), Out (''Question: '' @ question @ nl @ nl)]
      in case invoke_agent args of
           Inl m \<Rightarrow>
             \<lparr>stdout = out0 @ [OutExn ''Error: '' (Raised m)], calls = cs, status = SysExit 1\<rparr>
         | Inr response \<Rightarrow>
             (case for_events response ('''', out0 @ [Out (''Response:'' @ nl)]) of
                (Some e, completion, out) \<Rightarrow>
                  \<lparr>stdout = out @ [OutExn ''Error: '' e], calls = cs, status = SysExit 1\<rparr>
              | (None, completion, out) \<Rightarrow>
                  \<lparr>stdout = out @ [Out (nl @ nl)], calls = cs, status = Returned\<rparr>))"

text \<open>The \<open>__main__\<close> block; \<open>argv\<close> is \<open>sys.argv\<close>, the script's name first.\<close>

definition usage :: string where
  "usage = ''Usage: python3 test-agent.py <agent-id> <alias-id> [question]''"

definition tester_main :: "(invoke_args \<Rightarrow> string + event_stream) \<Rightarrow> string list \<Rightarrow> run" where
  "tester_main invoke_agent argv =
     (if length argv < 3
      then \<lparr>stdout = [Out (usage @ nl)], calls = [], status = SysExit 1\<rparr>
      else test_agent invoke_agent (argv ! 1) (argv ! 2)
             (if length argv > 3 then argv ! 3 else ''What is a derivative?''))"

section \<open>The index provisioner (\<open>create-opensearch-index.py\<close>)\<close>

definition REGION :: string where
  "REGION = ''eu-west-1''"

definition COLLECTION_NAME :: string where
  "COLLECTION_NAME = ''quickbook-vectors''"

definition INDEX_NAME :: string where
  "INDEX_NAME = ''textbook-index''"

text \<open>\<open>s.startswith(p)\<close>, \<open>needle in s\<close> and \<open>s.replace(old, new)\<close> on strings.\<close>

definition startswith :: "string \<Rightarrow> string \<Rightarrow> bool" where
  "startswith s p = (take (length p) s = p)"

fun str_contains :: "string \<Rightarrow> string \<Rightarrow> bool" where
  "str_contains needle [] = (needle = [])"
| "str_contains needle (c # cs) = (startswith (c # cs) needle \<or> str_contains needle cs)"

text \<open>
  \<open>str.replace\<close> scans from the left, replaces each occurrence it meets and goes
  on behind it: occurrences do not overlap and the result is not scanned again.
  With an empty \<open>old\<close>, Python puts \<open>new\<close> before every character and at the end.
\<close>

function str_replace :: "string \<Rightarrow> string \<Rightarrow> string \<Rightarrow> string" where
  "str_replace [] new s = new @ concat (map (\<lambda>c. c # new) s)"
| "str_replace (p # ps) new [] = []"
| "str_replace (p # ps) new (c # cs) =
     (if startswith (c # cs) (p # ps)
      then new @ str_replace (p # ps) new (drop (length (p # ps)) (c # cs))
      else c # str_replace (p # ps) new cs)"
  by pat_completeness auto
termination
  by (relation "measure (\<lambda>(old, new, s). length s)") auto

text \<open>
  The answer of \<open>batch_get_collection\<close>: a dict whose \<open>collectionDetails\<close> is a list
  of dicts. \<open>collection_endpoint\<close> is the expression
  \<open>response['collectionDetails'][0]['collectionEndpoint']\<close>.
\<close>

type_synonym collection_detail = "string \<rightharpoonup> string"

record lookup_response =
  collectionDetails :: "collection_detail list"

definition collection_endpoint :: "lookup_response \<Rightarrow> exn + string" where
  "collection_endpoint response =
     (case collectionDetails response of
        [] \<Rightarrow> Inl IndexError
      | detail # _ \<Rightarrow>
          (case detail ''collectionEndpoint'' of
             None \<Rightarrow> Inl (KeyError ''collectionEndpoint'')
           | Some endpoint \<Rightarrow> Inr endpoint))"

definition host_of :: "string \<Rightarrow> string" where
  "host_of endpoint = str_replace ''https://'' [] endpoint"

definition index_body :: json where
  "index_body =
     JObj [
       (''settings'', JObj [(''index.knn'', JBool True)]),
       (''mappings'', JObj [
          (''properties'', JObj [
             (''embedding'', JObj [
                (''type'', JStr ''knn_vector''),
                (''dimension'', JInt 1536),
                (''method'', JObj [
                   (''engine'', JStr ''faiss''),
                   (''name'', JStr ''hnsw'')])]),
             (''content'', JObj [(''type'', JStr ''text'')]),
             (''metadata'', JObj [(''type'', JStr ''object'')])])])]"

text \<open>The two emoji of the messages, U+2705 and U+274C, in UTF-8.\<close>

definition check_mark :: string where
  "check_mark = [CHR 0xE2, CHR 0x9C, CHR 0x85]"

definition cross_mark :: string where
  "cross_mark = [CHR 0xE2, CHR 0x9D, CHR 0x8C]"

text \<open>
  The script, top to bottom. \<open>batch_get_collection\<close> answers the lookup from the
  list of names; \<open>indices_create\<close> answers the create call from the host of the
  client, the index name and the body. The lookup and the subscripts stand
  outside the \<open>try\<close>: what they raise ends the script. Building the two clients
  and the signer makes no request.
\<close>

definition provisioner ::
  "(string list \<Rightarrow> string + lookup_response) \<Rightarrow>
   (string \<Rightarrow> string \<Rightarrow> json \<Rightarrow> string + json) \<Rightarrow> run" where
  "provisioner batch_get_collection indices_create =
     (let cs1 = [Boto3Client ''opensearchserverless'' REGION,
                 BatchGetCollection [COLLECTION_NAME]]
      in case batch_get_collection [COLLECTION_NAME] of
           Inl m \<Rightarrow> \<lparr>stdout = [], calls = cs1, status = Uncaught (Raised m)\<rparr>
         | Inr response \<Rightarrow>
             (case collection_endpoint response of
                Inl e \<Rightarrow> \<lparr>stdout = [], calls = cs1, status = Uncaught e\<rparr>
              | Inr endpoint \<Rightarrow>
                  (let host = host_of endpoint;
                       out1 = [Out (''Collection endpoint: '' @ endpoint @ nl)];
                       cs2 = cs1 @ [OpenSearchClient host 443,
                                    IndicesCreate INDEX_NAME index_body]
                   in case indices_create host INDEX_NAME index_body of
                        Inr response \<Rightarrow>
                          \<lparr>stdout = out1 @
                             [Out (check_mark @ '' Index '' @ [CHR 0x27] @ INDEX_NAME @ [CHR 0x27]
                                   @ '' created successfully!'' @ nl),
                              OutJson response],
                           calls = cs2, status = Returned\<rparr>
                      | Inl m \<Rightarrow>
                          (if str_contains ''resource_already_exists_exception'' m
                           then \<lparr>stdout = out1 @
                                  [Out (check_mark @ '' Index '' @ [CHR 0x27] @ INDEX_NAME
                                        @ [CHR 0x27] @ '' already exists'' @ nl)],
                                 calls = cs2, status = Returned\<rparr>
                           else \<lparr>stdout = out1 @ [OutExn (cross_mark @ '' Error: '') (Raised m)],
                                 calls = cs2, status = Uncaught (Raised m)\<rparr>))))"

section \<open>Notions the properties are stated with\<close>

text \<open>
  The \<open>bytes\<close> object an event carries, if it has a \<open>chunk\<close> with \<open>bytes\<close>; the
  text of an event (its payload decoded, when it decodes); the texts of a list of
  events in order; and the events whose payload, if any, is well-formed UTF-8.
\<close>

definition payload :: "event \<Rightarrow> bytes option" where
  "payload event = (case event ''chunk'' of None \<Rightarrow> None | Some chunk \<Rightarrow> chunk ''bytes'')"

definition text_of :: "event \<Rightarrow> string option" where
  "text_of event =
     (case payload event of
        None \<Rightarrow> None
      | Some b \<Rightarrow> (if utf8_valid b then Some b else None))"

definition texts :: "event list \<Rightarrow> string list" where
  "texts es = List.map_filter text_of es"

definition decodable :: "event \<Rightarrow> bool" where
  "decodable event = (case payload event of None \<Rightarrow> True | Some b \<Rightarrow> utf8_valid b)"

text \<open>An event that is one fragment of text, and the stream of the spec's example.\<close>

definition fragment :: "bytes \<Rightarrow> event" where
  "fragment b = [''chunk'' \<mapsto> [''bytes'' \<mapsto> b]]"

definition example_stream :: event_stream where
  "example_stream =
     Yield (fragment ''The '') (Yield (fragment ''derivative '') (Yield (fragment ''is...'') End))"

text \<open>
  The events the loop passes over: no \<open>chunk\<close> key, or a chunk with no \<open>bytes\<close> key;
  and a stream with these events taken out.
\<close>

definition skipped :: "event \<Rightarrow> bool" where
  "skipped event =
     (case event ''chunk'' of None \<Rightarrow> True | Some chunk \<Rightarrow> chunk ''bytes'' = None)"

fun drop_skipped :: "event_stream \<Rightarrow> event_stream" where
  "drop_skipped End = End"
| "drop_skipped (Throw m) = Throw m"
| "drop_skipped (Yield event rest) =
     (if skipped event then drop_skipped rest else Yield event (drop_skipped rest))"

text \<open>
  The first exception that consuming a stream raises: the one the iterator raises,
  or the \<open>UnicodeDecodeError\<close> of the first payload that is not well-formed.
\<close>

fun first_exception :: "event_stream \<Rightarrow> exn option" where
  "first_exception End = None"
| "first_exception (Throw m) = Some (Raised m)"
| "first_exception (Yield event rest) =
     (case payload event of
        None \<Rightarrow> first_exception rest
      | Some b \<Rightarrow>
          (if utf8_valid b then first_exception rest else Some (UnicodeDecodeError b)))"

text \<open>The arguments of the agent invocations, and the create calls, of a list of calls.\<close>

fun invocations :: "call list \<Rightarrow> invoke_args list" where
  "invocations [] = []"
| "invocations (InvokeAgent args # cs) = args # invocations cs"
| "invocations (c # cs) = invocations cs"

fun create_calls :: "call list \<Rightarrow> (string \<times> json) list" where
  "create_calls [] = []"
| "create_calls (IndicesCreate name body # cs) = (name, body) # create_calls cs"
| "create_calls (c # cs) = create_calls cs"

text \<open>The member of a JSON object at a path of keys.\<close>

fun json_at :: "string list \<Rightarrow> json \<Rightarrow> json option" where
  "json_at [] j = Some j"
| "json_at (k # ks) (JObj kvs) =
     (case map_of kvs k of None \<Rightarrow> None | Some v \<Rightarrow> json_at ks v)"
| "json_at (k # ks) j = None"

fun json_keys :: "json \<Rightarrow> string list" where
  "json_keys (JObj kvs) = map fst kvs"
| "json_keys j = []"

text \<open>
  Stripping the scheme prefix as the specification words it: the literal
  \<open>https://\<close> is taken from the front of the endpoint, once, and the rest is kept.
\<close>

definition strip_scheme_prefix :: "string \<Rightarrow> string" where
  "strip_scheme_prefix endpoint =
     (if startswith endpoint ''https://'' then drop (length ''https://'') endpoint
      else endpoint)"

text \<open>Events and streams the properties are tried on.\<close>

definition trace_event :: event where
  "trace_event = [''trace'' \<mapsto> Map.empty]"

definition empty_chunk_event :: event where
  "empty_chunk_event = [''chunk'' \<mapsto> [''attribution'' \<mapsto> '''']]"

definition broken_stream :: event_stream where
  "broken_stream = Yield (fragment ''The '') (Throw ''stream reset'')"

definition malformed_stream :: event_stream where
  "malformed_stream = Yield (fragment ''The '') (Yield (fragment [CHR 0xFF]) End)"

text \<open>Answers of the search service the properties are tried on.\<close>

definition example_lookup :: "string list \<Rightarrow> string + lookup_response" where
  "example_lookup names =
     Inr \<lparr>collectionDetails =
       [[''collectionEndpoint'' \<mapsto> ''https://abc123.eu-west-1.aoss.amazonaws.com'']]\<rparr>"

definition created_response :: json where
  "created_response =
     JObj [(''acknowledged'', JBool True), (''shards_acknowledged'', JBool True),
           (''index'', JStr ''textbook-index'')]"

definition already_exists_message :: string where
  "already_exists_message =
     ''RequestError(400, 'resource_already_exists_exception', 'index already exists')''"

definition empty_lookup :: "string list \<Rightarrow> string + lookup_response" where
  "empty_lookup names = Inr \<lparr>collectionDetails = []\<rparr>"

section \<open>The loop of the agent tester\<close>

lemma for_events_Yield:
  "for_events (Yield event rest) (c, out) =
     (case payload event of
        None \<Rightarrow> for_events rest (c, out)
      | Some b \<Rightarrow>
          (if utf8_valid b then for_events rest (c @ b, out @ [Out b])
           else (Some (UnicodeDecodeError b), c, out)))"
  by (simp add: payload_def decode_utf8_def split: option.split)

lemma texts_Nil: "texts [] = []"
  by (simp add: texts_def List.map_filter_simps)

lemma texts_Cons:
  "texts (e # es) = (case text_of e of None \<Rightarrow> texts es | Some t \<Rightarrow> t # texts es)"
  by (simp add: texts_def List.map_filter_simps split: option.split)

text \<open>
  Consuming a run of decodable events appends their texts, in order, to the
  accumulator and to the output, whatever follows in the stream.
\<close>

lemma for_events_prefix:
  "list_all decodable es \<Longrightarrow>
   for_events (foldr Yield es rest) (c, out) =
     for_events rest (c @ concat (texts es), out @ map Out (texts es))"
proof (induction es arbitrary: c out)
  case Nil
  show ?case by (simp add: texts_Nil)
next
  case (Cons e es)
  from Cons.prems have d: "decodable e" and ds: "list_all decodable es" by simp_all
  show ?case
  proof (cases "payload e")
    case None
    then show ?thesis
      using Cons.IH [OF ds]
      by (simp add: for_events_Yield texts_Cons text_of_def del: for_events.simps(3))
  next
    case (Some b)
    with d have v: "utf8_valid b" by (simp add: decodable_def)
    show ?thesis
      using Cons.IH [OF ds, of "c @ b" "out @ [Out b]"] Some v
      by (simp add: for_events_Yield texts_Cons text_of_def del: for_events.simps(3))
  qed
qed

lemma payload_fragment: "payload (fragment b) = Some b"
  by (simp add: payload_def fragment_def)

lemma ascii_valid:
  "utf8_valid ''The ''" "utf8_valid ''derivative ''" "utf8_valid ''is...''"
  by (simp_all add: trail_len_def)

lemma example_texts:
  "texts [fragment ''The '', fragment ''derivative '', fragment ''is...''] =
     [''The '', ''derivative '', ''is...'']"
  by (simp add: texts_Cons texts_Nil text_of_def payload_fragment ascii_valid
      del: utf8_valid.simps)

lemma example_decodable:
  "list_all decodable [fragment ''The '', fragment ''derivative '', fragment ''is...'']"
  by (simp add: decodable_def payload_fragment ascii_valid del: utf8_valid.simps)

lemma for_events_fst: "fst (for_events st (c, out)) = first_exception st"
proof (induction st arbitrary: c out)
  case End
  show ?case by simp
next
  case (Throw m)
  show ?case by simp
next
  case (Yield event rest)
  show ?case
    by (simp add: for_events_Yield Yield.IH del: for_events.simps(3) split: option.split)
qed

lemma for_events_drop_skipped:
  "for_events (drop_skipped st) (c, out) = for_events st (c, out)"
proof (induction st arbitrary: c out)
  case End
  show ?case by simp
next
  case (Throw m)
  show ?case by simp
next
  case (Yield event rest)
  show ?case
  proof (cases "skipped event")
    case True
    then have "payload event = None"
      by (simp add: skipped_def payload_def split: option.splits)
    with True show ?thesis
      by (simp add: for_events_Yield Yield.IH del: for_events.simps(3))
  next
    case False
    then show ?thesis
      by (simp add: for_events_Yield Yield.IH del: for_events.simps(3) split: option.split)
  qed
qed

text \<open>\<open>test_agent\<close> builds one client and invokes the agent once, whatever comes back.\<close>

lemma test_agent_calls:
  "calls (test_agent invoke_agent agent_id alias_id question) =
     [Boto3Client ''bedrock-agent-runtime'' ''eu-west-1'',
      InvokeAgent \<lparr>agentId = agent_id, agentAliasId = alias_id,
        sessionId = ''test-session-123'', inputText = question\<rparr>]"
  by (simp add: test_agent_def Let_def split: sum.split option.split prod.split)

section \<open>Properties of the agent tester\<close>

text \<open>
  C1, as amended. For every finite list of events whose payloads are well-formed
  UTF-8: once the loop has consumed them, their texts stand in stream order at the
  end of the accumulator and of the output, one output item per fragment, whatever
  the stream holds behind them; when the stream ends after them, the loop leaves
  with the concatenation of the texts in the accumulator, and the run has written
  the two header lines, \<open>Response:\<close>, the fragments one by one and a final pair of
  line ends, and returns. What the run writes after the last fragment is that pair
  of line ends alone, the same for every stream: it does not depend on the
  accumulated string.
\<close>

theorem test_agent_streams_fragments:
  assumes "list_all decodable es"
    and "invoke_agent \<lparr>agentId = agent_id, agentAliasId = alias_id,
           sessionId = ''test-session-123'', inputText = question\<rparr> = Inr (foldr Yield es End)"
  shows "for_events (foldr Yield es rest) (completion, out) =
           for_events rest (completion @ concat (texts es), out @ map Out (texts es))
       \<and> for_events (foldr Yield es End) ('''', out) =
           (None, concat (texts es), out @ map Out (texts es))
       \<and> stdout (test_agent invoke_agent agent_id alias_id question) =
           [Out (''Testing Agent...'' @ nl), Out (''Question: '' @ question @ nl @ nl),
            Out (''Response:'' @ nl)] @ map Out (texts es) @ [Out (nl @ nl)]
       \<and> drop (3 + length (texts es)) (stdout (test_agent invoke_agent agent_id alias_id question))
           = [Out (nl @ nl)]
       \<and> status (test_agent invoke_agent agent_id alias_id question) = Returned"
proof -
  have a: "for_events (foldr Yield es rest) (completion, out) =
           for_events rest (completion @ concat (texts es), out @ map Out (texts es))"
    by (rule for_events_prefix [OF assms(1)])
  have b: "for_events (foldr Yield es End) (c, o') =
           (None, c @ concat (texts es), o' @ map Out (texts es))" for c o'
    by (simp add: for_events_prefix [OF assms(1)])
  have s: "stdout (test_agent invoke_agent agent_id alias_id question) =
           [Out (''Testing Agent...'' @ nl), Out (''Question: '' @ question @ nl @ nl),
            Out (''Response:'' @ nl)] @ map Out (texts es) @ [Out (nl @ nl)]"
    and r: "status (test_agent invoke_agent agent_id alias_id question) = Returned"
    using b [of "''''"] assms(2)
    by (simp_all add: test_agent_def Let_def)
  have d: "drop (3 + length (texts es)) (stdout (test_agent invoke_agent agent_id alias_id question))
           = [Out (nl @ nl)]"
    by (simp add: s numeral_3_eq_3)
  from a b [of "''''" out] s d r show ?thesis
    by simp
qed

text \<open>
  The spec's example: the stream of the fragments \<open>The\<close>, \<open>derivative\<close>, \<open>is...\<close>.
\<close>

theorem test_agent_streams_fragments_witness:
  "stdout (test_agent (\<lambda>_. Inr example_stream) ''agent'' ''alias'' ''What is a derivative?'') =
     [Out (''Testing Agent...'' @ nl), Out (''Question: What is a derivative?'' @ nl @ nl),
      Out (''Response:'' @ nl), Out ''The '', Out ''derivative '', Out ''is...'', Out (nl @ nl)]
   \<and> for_events example_stream ('''', []) =
       (None, ''The derivative is...'', [Out ''The '', Out ''derivative '', Out ''is...''])"
proof -
  have inv: "(\<lambda>_. Inr example_stream)
      \<lparr>agentId = ''agent'', agentAliasId = ''alias'', sessionId = ''test-session-123'',
       inputText = ''What is a derivative?''\<rparr> =
      Inr (foldr Yield [fragment ''The '', fragment ''derivative '', fragment ''is...''] End)"
    by (simp add: example_stream_def)
  show ?thesis
    using test_agent_streams_fragments [OF example_decodable inv, of End "[]" "[]"]
    by (simp add: example_texts example_stream_def del: for_events.simps(3))
qed

text \<open>
  C1 as stated fails on the example: what the run writes after the last fragment
  is the pair of line ends of the closing \<open>print\<close>, and no \<open>print\<close> of the run
  writes the accumulated string \<open>The derivative is...\<close>, with or without a line end.
\<close>

theorem final_print_counterexample:
  "last (stdout (test_agent (\<lambda>_. Inr example_stream) ''agent'' ''alias'' ''What is a derivative?''))
     = Out (nl @ nl)
   \<and> Out ''The derivative is...'' \<notin>
       set (stdout (test_agent (\<lambda>_. Inr example_stream) ''agent'' ''alias'' ''What is a derivative?''))
   \<and> Out (''The derivative is...'' @ nl) \<notin>
       set (stdout (test_agent (\<lambda>_. Inr example_stream) ''agent'' ''alias'' ''What is a derivative?''))"
  by (simp add: test_agent_def example_stream_def fragment_def decode_utf8_def trail_len_def nl_def)

text \<open>
  C4. With fewer than two arguments behind the script's name, the run writes the
  usage line and exits with status 1; it builds no client and invokes no agent.
\<close>

theorem usage_error_exits:
  assumes "length (tl argv) < 2"
  shows "tester_main invoke_agent argv =
           \<lparr>stdout = [Out (''Usage: python3 test-agent.py <agent-id> <alias-id> [question]'' @ nl)],
            calls = [], status = SysExit 1\<rparr>
       \<and> exit_status (status (tester_main invoke_agent argv)) = 1"
proof -
  from assms have "length argv < 3" by (cases argv) simp_all
  then show ?thesis by (simp add: tester_main_def usage_def)
qed

theorem usage_error_exits_witness:
  "length (tl [''test-agent.py'', ''AGENT1'']) < 2
   \<and> stdout (tester_main (\<lambda>_. Inr example_stream) [''test-agent.py'', ''AGENT1'']) =
        [Out (''Usage: python3 test-agent.py <agent-id> <alias-id> [question]'' @ nl)]
   \<and> calls (tester_main (\<lambda>_. Inr example_stream) [''test-agent.py'', ''AGENT1'']) = []
   \<and> exit_status (status (tester_main (\<lambda>_. Inr example_stream) [''test-agent.py'', ''AGENT1''])) = 1"
proof -
  have h: "length (tl [''test-agent.py'', ''AGENT1'']) < 2" by simp
  show ?thesis
    using usage_error_exits [OF h, of "\<lambda>_. Inr example_stream"] h by simp
qed

text \<open>
  C5. When the invocation raises, or consuming the stream raises (the iterator
  does, or a payload does not decode), the run ends with the line \<open>Error:\<close>
  followed by the exception, and exits with status 1.
\<close>

theorem failure_exits_with_error:
  assumes "invoke_agent \<lparr>agentId = agent_id, agentAliasId = alias_id,
             sessionId = ''test-session-123'', inputText = question\<rparr> = r"
    and "(case r of Inl m \<Rightarrow> Some (Raised m) | Inr response \<Rightarrow> first_exception response) = Some e"
  shows "status (test_agent invoke_agent agent_id alias_id question) = SysExit 1
       \<and> exit_status (status (test_agent invoke_agent agent_id alias_id question)) = 1
       \<and> last (stdout (test_agent invoke_agent agent_id alias_id question)) = OutExn ''Error: '' e"
proof (cases r)
  case (Inl m)
  with assms show ?thesis by (simp add: test_agent_def Let_def)
next
  case (Inr response)
  with assms(2) have fe: "first_exception response = Some e" by simp
  obtain x c out where f: "for_events response ('''', [Out (''Testing Agent...'' @ nl),
      Out (''Question: '' @ question @ nl @ nl), Out (''Response:'' @ nl)]) = (x, c, out)"
    by (cases "for_events response ('''', [Out (''Testing Agent...'' @ nl),
      Out (''Question: '' @ question @ nl @ nl), Out (''Response:'' @ nl)])") auto
  have "x = Some e"
    using for_events_fst [of response "''''" "[Out (''Testing Agent...'' @ nl),
      Out (''Question: '' @ question @ nl @ nl), Out (''Response:'' @ nl)]"] f fe by simp
  with f Inr assms(1) show ?thesis by (simp add: test_agent_def Let_def)
qed

theorem failure_exits_with_error_witness:
  "stdout (test_agent (\<lambda>_. Inr broken_stream) ''agent'' ''alias'' ''q'') =
     [Out (''Testing Agent...'' @ nl), Out (''Question: q'' @ nl @ nl), Out (''Response:'' @ nl),
      Out ''The '', OutExn ''Error: '' (Raised ''stream reset'')]
   \<and> exit_status (status (test_agent (\<lambda>_. Inr broken_stream) ''agent'' ''alias'' ''q'')) = 1
   \<and> last (stdout (test_agent (\<lambda>_. Inr malformed_stream) ''agent'' ''alias'' ''q''))
       = OutExn ''Error: '' (UnicodeDecodeError [CHR 0xFF])
   \<and> exit_status (status (test_agent (\<lambda>_. Inr malformed_stream) ''agent'' ''alias'' ''q'')) = 1
   \<and> last (stdout (test_agent (\<lambda>_. Inl ''access denied'') ''agent'' ''alias'' ''q''))
       = OutExn ''Error: '' (Raised ''access denied'')
   \<and> exit_status (status (test_agent (\<lambda>_. Inl ''access denied'') ''agent'' ''alias'' ''q'')) = 1"
proof -
  have b: "first_exception broken_stream = Some (Raised ''stream reset'')"
    by (simp add: broken_stream_def payload_fragment ascii_valid del: utf8_valid.simps)
  have m: "first_exception malformed_stream = Some (UnicodeDecodeError [CHR 0xFF])"
    by (simp add: malformed_stream_def payload_fragment trail_len_def)
  have s: "stdout (test_agent (\<lambda>_. Inr broken_stream) ''agent'' ''alias'' ''q'') =
     [Out (''Testing Agent...'' @ nl), Out (''Question: q'' @ nl @ nl), Out (''Response:'' @ nl),
      Out ''The '', OutExn ''Error: '' (Raised ''stream reset'')]"
    by (simp add: test_agent_def broken_stream_def fragment_def decode_utf8_def trail_len_def)
  show ?thesis
    using failure_exits_with_error [of "\<lambda>_. Inr broken_stream" "''agent''" "''alias''" "''q''"
        "Inr broken_stream" "Raised ''stream reset''"]
      failure_exits_with_error [of "\<lambda>_. Inr malformed_stream" "''agent''" "''alias''" "''q''"
        "Inr malformed_stream" "UnicodeDecodeError [CHR 0xFF]"]
      failure_exits_with_error [of "\<lambda>_. Inl ''access denied''" "''agent''" "''alias''" "''q''"
        "Inl ''access denied''" "Raised ''access denied''"]
      b m s
    by simp
qed

text \<open>
  C7. With exactly two arguments behind the script's name the agent is invoked
  with the fallback question \<open>What is a derivative?\<close>; with more, it is invoked with
  the third argument as it stands.
\<close>

theorem question_default:
  "(length (tl argv) = 2 \<longrightarrow>
      calls (tester_main invoke_agent argv) =
        [Boto3Client ''bedrock-agent-runtime'' ''eu-west-1'',
         InvokeAgent \<lparr>agentId = argv ! 1, agentAliasId = argv ! 2,
           sessionId = ''test-session-123'', inputText = ''What is a derivative?''\<rparr>])
   \<and> (length (tl argv) > 2 \<longrightarrow>
      calls (tester_main invoke_agent argv) =
        [Boto3Client ''bedrock-agent-runtime'' ''eu-west-1'',
         InvokeAgent \<lparr>agentId = argv ! 1, agentAliasId = argv ! 2,
           sessionId = ''test-session-123'', inputText = argv ! 3\<rparr>])"
proof -
  have l: "length (tl argv) = length argv - 1" by simp
  show ?thesis
    unfolding l by (auto simp add: tester_main_def test_agent_calls)
qed

theorem question_default_witness:
  "map inputText (invocations (calls (tester_main (\<lambda>_. Inr End) [''test-agent.py'', ''A'', ''B''])))
     = [''What is a derivative?'']
   \<and> map inputText (invocations (calls (tester_main (\<lambda>_. Inr End)
        [''test-agent.py'', ''A'', ''B'', ''What is an integral?''])))
     = [''What is an integral?'']"
  using question_default [of "[''test-agent.py'', ''A'', ''B'']" "\<lambda>_. Inr End"]
    question_default [of "[''test-agent.py'', ''A'', ''B'', ''What is an integral?'']" "\<lambda>_. Inr End"]
  by simp

text \<open>
  C8. Every invocation of the agent carries the session identifier
  \<open>test-session-123\<close>: \<open>test_agent\<close> invokes the agent once, with that identifier,
  whatever its arguments and whatever the agent answers; a run of the script
  invokes it once with that identifier, or (too few arguments) not at all.
\<close>

theorem fixed_session_identifier:
  "map sessionId (invocations (calls (test_agent invoke_agent agent_id alias_id question)))
     = [''test-session-123'']
   \<and> map sessionId (invocations (calls (tester_main invoke_agent argv)))
     = (if length argv < 3 then [] else [''test-session-123''])"
  by (simp add: tester_main_def test_agent_calls)

theorem fixed_session_identifier_witness:
  "map sessionId (invocations (calls (tester_main (\<lambda>_. Inr End) [''test-agent.py'', ''A'', ''B''])))
     = [''test-session-123'']
   \<and> map sessionId (invocations (calls (tester_main (\<lambda>_. Inl ''denied'')
        [''test-agent.py'', ''C'', ''D'', ''What is an integral?''])))
     = [''test-session-123'']"
  using fixed_session_identifier [of "\<lambda>_. Inr End" "''A''" "''B''" "''q''" "[''test-agent.py'', ''A'', ''B'']"]
    fixed_session_identifier [of "\<lambda>_. Inl ''denied''" "''A''" "''B''" "''q''"
      "[''test-agent.py'', ''C'', ''D'', ''What is an integral?'']"]
  by simp

text \<open>
  C9. An event with no \<open>chunk\<close> key, or whose chunk has no \<open>bytes\<close> key, leaves the
  accumulator and the output as they are and raises nothing: the loop goes on
  with the rest of the stream. Taking all such events out of a stream changes
  neither what the loop returns nor the run of \<open>test_agent\<close>.
\<close>

theorem skipped_events_are_silent:
  "(skipped event \<longrightarrow>
      for_events (Yield event rest) (completion, out) = for_events rest (completion, out))
   \<and> for_events (drop_skipped st) (completion, out) = for_events st (completion, out)
   \<and> test_agent (\<lambda>args. map_sum id drop_skipped (invoke_agent args)) agent_id alias_id question =
       test_agent invoke_agent agent_id alias_id question"
proof -
  have a: "skipped event \<longrightarrow>
      for_events (Yield event rest) (completion, out) = for_events rest (completion, out)"
    by (simp add: skipped_def split: option.split)
  have b: "for_events (drop_skipped st) (completion, out) = for_events st (completion, out)"
    by (rule for_events_drop_skipped)
  have c: "test_agent (\<lambda>args. map_sum id drop_skipped (invoke_agent args)) agent_id alias_id question =
       test_agent invoke_agent agent_id alias_id question"
    by (simp add: test_agent_def Let_def for_events_drop_skipped split: sum.split)
  from a b c show ?thesis by blast
qed

theorem skipped_events_are_silent_witness:
  "skipped trace_event \<and> skipped empty_chunk_event
   \<and> for_events (Yield trace_event (Yield (fragment ''The '') (Yield empty_chunk_event End))) ('''', [])
       = (None, ''The '', [Out ''The ''])"
proof -
  have s: "skipped trace_event" "skipped empty_chunk_event"
    by (simp_all add: skipped_def trace_event_def empty_chunk_event_def)
  have e: "for_events (Yield (fragment ''The '') End) ('''', []) = (None, ''The '', [Out ''The ''])"
    by (simp add: fragment_def decode_utf8_def trail_len_def)
  have n: "\<not> skipped (fragment ''The '')"
    by (simp add: skipped_def fragment_def)
  show ?thesis
    using skipped_events_are_silent
      [of trace_event "Yield (fragment ''The '') (Yield empty_chunk_event End)" "''''" "[]"
          "Yield trace_event (Yield (fragment ''The '') (Yield empty_chunk_event End))"
          "\<lambda>_. Inl ''x''" "''a''" "''b''" "''q''"]
      s e n
    by (simp del: for_events.simps)
qed

section \<open>Strings and calls of the index provisioner\<close>

lemma str_replace_absent:
  "\<not> str_contains (p # ps) s \<Longrightarrow> str_replace (p # ps) new s = s"
  by (induction s) simp_all

lemma startswith_append: "startswith (p @ s) p"
  by (simp add: startswith_def)

lemma host_of_https: "host_of (''https://'' @ rest) = str_replace ''https://'' [] rest"
proof -
  have "startswith (''https://'' @ rest) ''https://''"
    by (rule startswith_append)
  then show ?thesis
    by (simp add: host_of_def)
qed

lemma provisioner_calls:
  assumes "batch_get_collection [COLLECTION_NAME] = Inr response"
    and "collection_endpoint response = Inr endpoint"
  shows "calls (provisioner batch_get_collection indices_create) =
           [Boto3Client ''opensearchserverless'' ''eu-west-1'',
            BatchGetCollection [''quickbook-vectors''],
            OpenSearchClient (host_of endpoint) 443,
            IndicesCreate ''textbook-index'' index_body]"
  using assms
  by (simp add: provisioner_def Let_def REGION_def COLLECTION_NAME_def INDEX_NAME_def
      split: sum.split)

lemma provisioner_calls_failed_lookup:
  assumes "batch_get_collection [COLLECTION_NAME] = Inl m
           \<or> (\<exists>response e. batch_get_collection [COLLECTION_NAME] = Inr response
                \<and> collection_endpoint response = Inl e)"
  shows "calls (provisioner batch_get_collection indices_create) =
           [Boto3Client ''opensearchserverless'' ''eu-west-1'',
            BatchGetCollection [''quickbook-vectors'']]"
  using assms
  by (auto simp add: provisioner_def Let_def REGION_def COLLECTION_NAME_def)

lemma create_calls_provisioner:
  "set (create_calls (calls (provisioner batch_get_collection indices_create)))
     \<subseteq> {(''textbook-index'', index_body)}"
proof (cases "batch_get_collection [COLLECTION_NAME]")
  case (Inl m)
  then show ?thesis
    by (simp add: provisioner_calls_failed_lookup)
next
  case (Inr response)
  show ?thesis
  proof (cases "collection_endpoint response")
    case (Inl e)
    with Inr have "calls (provisioner batch_get_collection indices_create) =
           [Boto3Client ''opensearchserverless'' ''eu-west-1'',
            BatchGetCollection [''quickbook-vectors'']]"
      by (intro provisioner_calls_failed_lookup) blast
    then show ?thesis by simp
  next
    case (Inr endpoint)
    with \<open>batch_get_collection [COLLECTION_NAME] = Inr response\<close> show ?thesis
      by (simp add: provisioner_calls)
  qed
qed

lemma example_endpoint:
  "example_lookup [COLLECTION_NAME] =
     Inr \<lparr>collectionDetails =
       [[''collectionEndpoint'' \<mapsto> ''https://abc123.eu-west-1.aoss.amazonaws.com'']]\<rparr>"
  "collection_endpoint \<lparr>collectionDetails =
       [[''collectionEndpoint'' \<mapsto> ''https://abc123.eu-west-1.aoss.amazonaws.com'']]\<rparr>
     = Inr ''https://abc123.eu-west-1.aoss.amazonaws.com''"
  by (simp_all add: example_lookup_def collection_endpoint_def)

lemma already_exists_contains:
  "str_contains ''resource_already_exists_exception'' already_exists_message"
  by (simp add: already_exists_message_def startswith_def)

lemma timeout_not_contains:
  "\<not> str_contains ''resource_already_exists_exception'' ''ConnectionTimeout''"
  by (simp add: startswith_def)

section \<open>Properties of the index provisioner\<close>

text \<open>
  C2. Once the lookup has given an endpoint, the outcome of the create call decides
  the run. The call returns: the run reports the creation and returns (exit status
  0). The call raises and \<open>resource_already_exists_exception\<close> occurs in the
  exception's \<open>str()\<close>: the run reports that the index exists and returns (exit
  status 0). The call raises anything else: the run prints the error and the
  exception leaves the script uncaught (exit status 1).
\<close>

theorem create_outcome_classified:
  assumes "batch_get_collection [COLLECTION_NAME] = Inr response"
    and "collection_endpoint response = Inr endpoint"
  shows "(indices_create (host_of endpoint) INDEX_NAME index_body = Inr created \<longrightarrow>
            status (provisioner batch_get_collection indices_create) = Returned
          \<and> exit_status (status (provisioner batch_get_collection indices_create)) = 0
          \<and> stdout (provisioner batch_get_collection indices_create) =
              [Out (''Collection endpoint: '' @ endpoint @ nl),
               Out (check_mark @ '' Index 'textbook-index' created successfully!'' @ nl),
               OutJson created])
       \<and> (indices_create (host_of endpoint) INDEX_NAME index_body = Inl m
            \<and> str_contains ''resource_already_exists_exception'' m \<longrightarrow>
            status (provisioner batch_get_collection indices_create) = Returned
          \<and> exit_status (status (provisioner batch_get_collection indices_create)) = 0
          \<and> stdout (provisioner batch_get_collection indices_create) =
              [Out (''Collection endpoint: '' @ endpoint @ nl),
               Out (check_mark @ '' Index 'textbook-index' already exists'' @ nl)])
       \<and> (indices_create (host_of endpoint) INDEX_NAME index_body = Inl m
            \<and> \<not> str_contains ''resource_already_exists_exception'' m \<longrightarrow>
            status (provisioner batch_get_collection indices_create) = Uncaught (Raised m)
          \<and> exit_status (status (provisioner batch_get_collection indices_create)) = 1
          \<and> stdout (provisioner batch_get_collection indices_create) =
              [Out (''Collection endpoint: '' @ endpoint @ nl),
               OutExn (cross_mark @ '' Error: '') (Raised m)])"
  using assms
  by (simp add: provisioner_def Let_def INDEX_NAME_def)

theorem create_outcome_classified_witness:
  "status (provisioner example_lookup (\<lambda>host name body. Inr created_response)) = Returned
   \<and> last (stdout (provisioner example_lookup (\<lambda>host name body. Inr created_response)))
       = OutJson created_response
   \<and> status (provisioner example_lookup (\<lambda>host name body. Inl already_exists_message)) = Returned
   \<and> last (stdout (provisioner example_lookup (\<lambda>host name body. Inl already_exists_message)))
       = Out (check_mark @ '' Index 'textbook-index' already exists'' @ nl)
   \<and> status (provisioner example_lookup (\<lambda>host name body. Inl ''ConnectionTimeout''))
       = Uncaught (Raised ''ConnectionTimeout'')
   \<and> exit_status (status (provisioner example_lookup (\<lambda>host name body. Inl ''ConnectionTimeout''))) = 1
   \<and> last (stdout (provisioner example_lookup (\<lambda>host name body. Inl ''ConnectionTimeout'')))
       = OutExn (cross_mark @ '' Error: '') (Raised ''ConnectionTimeout'')"
  using create_outcome_classified [where batch_get_collection = example_lookup
      and indices_create = "\<lambda>host name body. Inr created_response"
      and created = created_response and m = "[]", OF example_endpoint]
    create_outcome_classified [where batch_get_collection = example_lookup
      and indices_create = "\<lambda>host name body. Inl already_exists_message"
      and created = created_response and m = already_exists_message, OF example_endpoint]
    create_outcome_classified [where batch_get_collection = example_lookup
      and indices_create = "\<lambda>host name body. Inl ''ConnectionTimeout''"
      and created = created_response and m = "''ConnectionTimeout''", OF example_endpoint]
    already_exists_contains timeout_not_contains
  by (simp del: str_contains.simps)

text \<open>
  C3. Every create call of a run names the index \<open>textbook-index\<close> and carries
  \<open>index_body\<close>; when the lookup has given an endpoint there is exactly one, and the
  run depends on the search service only through its answer to that request. The
  body has the settings \<open>index.knn = true\<close> and the mapped properties \<open>embedding\<close>
  (a \<open>knn_vector\<close> of dimension 1536, method \<open>hnsw\<close> on engine \<open>faiss\<close>), \<open>content\<close>
  (\<open>text\<close>) and \<open>metadata\<close> (\<open>object\<close>), and nothing else.
\<close>

theorem create_body_is_fixed_schema:
  "set (create_calls (calls (provisioner batch_get_collection indices_create)))
      \<subseteq> {(''textbook-index'', index_body)}
   \<and> (batch_get_collection [COLLECTION_NAME] = Inr response
        \<and> collection_endpoint response = Inr endpoint \<longrightarrow>
      create_calls (calls (provisioner batch_get_collection indices_create))
        = [(''textbook-index'', index_body)]
      \<and> (indices_create (host_of endpoint) ''textbook-index'' index_body
           = indices_create' (host_of endpoint) ''textbook-index'' index_body \<longrightarrow>
         provisioner batch_get_collection indices_create
           = provisioner batch_get_collection indices_create'))
   \<and> json_keys index_body = [''settings'', ''mappings'']
   \<and> json_at [''settings''] index_body = Some (JObj [(''index.knn'', JBool True)])
   \<and> map_option json_keys (json_at [''mappings''] index_body) = Some [''properties'']
   \<and> map_option json_keys (json_at [''mappings'', ''properties''] index_body)
       = Some [''embedding'', ''content'', ''metadata'']
   \<and> json_at [''mappings'', ''properties'', ''embedding''] index_body =
       Some (JObj [(''type'', JStr ''knn_vector''), (''dimension'', JInt 1536),
                   (''method'', JObj [(''engine'', JStr ''faiss''), (''name'', JStr ''hnsw'')])])
   \<and> json_at [''mappings'', ''properties'', ''content''] index_body =
       Some (JObj [(''type'', JStr ''text'')])
   \<and> json_at [''mappings'', ''properties'', ''metadata''] index_body =
       Some (JObj [(''type'', JStr ''object'')])"
proof -
  have a: "set (create_calls (calls (provisioner batch_get_collection indices_create)))
      \<subseteq> {(''textbook-index'', index_body)}"
    by (rule create_calls_provisioner)
  have b: "create_calls (calls (provisioner batch_get_collection indices_create))
        = [(''textbook-index'', index_body)]"
    if "batch_get_collection [COLLECTION_NAME] = Inr response"
      "collection_endpoint response = Inr endpoint"
    using that by (simp add: provisioner_calls)
  have c: "provisioner batch_get_collection indices_create
           = provisioner batch_get_collection indices_create'"
    if "batch_get_collection [COLLECTION_NAME] = Inr response"
      "collection_endpoint response = Inr endpoint"
      "indices_create (host_of endpoint) ''textbook-index'' index_body
           = indices_create' (host_of endpoint) ''textbook-index'' index_body"
    using that by (simp add: provisioner_def Let_def INDEX_NAME_def)
  have d: "json_keys index_body = [''settings'', ''mappings'']"
    "json_at [''settings''] index_body = Some (JObj [(''index.knn'', JBool True)])"
    "map_option json_keys (json_at [''mappings''] index_body) = Some [''properties'']"
    "map_option json_keys (json_at [''mappings'', ''properties''] index_body)
       = Some [''embedding'', ''content'', ''metadata'']"
    "json_at [''mappings'', ''properties'', ''embedding''] index_body =
       Some (JObj [(''type'', JStr ''knn_vector''), (''dimension'', JInt 1536),
                   (''method'', JObj [(''engine'', JStr ''faiss''), (''name'', JStr ''hnsw'')])])"
    "json_at [''mappings'', ''properties'', ''content''] index_body =
       Some (JObj [(''type'', JStr ''text'')])"
    "json_at [''mappings'', ''properties'', ''metadata''] index_body =
       Some (JObj [(''type'', JStr ''object'')])"
    by (simp_all add: index_body_def)
  from a b c d show ?thesis by blast
qed

theorem create_body_is_fixed_schema_witness:
  "create_calls (calls (provisioner example_lookup (\<lambda>host name body. Inr created_response)))
     = [(''textbook-index'', index_body)]
   \<and> json_at [''mappings'', ''properties'', ''embedding'', ''dimension''] index_body
       = Some (JInt 1536)
   \<and> json_at [''mappings'', ''properties'', ''embedding'', ''method'', ''engine''] index_body
       = Some (JStr ''faiss'')
   \<and> json_at [''settings'', ''index.knn''] index_body = Some (JBool True)"
proof -
  have j: "json_at [''mappings'', ''properties'', ''embedding'', ''dimension''] index_body
       = Some (JInt 1536)"
    "json_at [''mappings'', ''properties'', ''embedding'', ''method'', ''engine''] index_body
       = Some (JStr ''faiss'')"
    "json_at [''settings'', ''index.knn''] index_body = Some (JBool True)"
    by (simp_all add: index_body_def)
  show ?thesis
    using create_body_is_fixed_schema [where batch_get_collection = example_lookup
        and indices_create = "\<lambda>host name body. Inr created_response"
        and indices_create' = "\<lambda>host name body. Inr created_response"
        and response = "\<lparr>collectionDetails =
          [[''collectionEndpoint'' \<mapsto> ''https://abc123.eu-west-1.aoss.amazonaws.com'']]\<rparr>"
        and endpoint = "''https://abc123.eu-west-1.aoss.amazonaws.com''"]
      example_endpoint j
    by simp
qed

text \<open>
  C6, as amended. For an endpoint that is \<open>https://\<close> followed by a remainder in
  which \<open>https://\<close> does not occur, the host is the remainder, unchanged, which is
  the endpoint with its scheme prefix stripped; an endpoint in which \<open>https://\<close>
  does not occur is its own host; and the client of the run is built for that host.
\<close>

theorem host_of_strips_scheme:
  assumes "\<not> str_contains ''https://'' rest"
  shows "host_of (''https://'' @ rest) = rest
       \<and> host_of (''https://'' @ rest) = strip_scheme_prefix (''https://'' @ rest)
       \<and> host_of rest = rest
       \<and> (batch_get_collection [COLLECTION_NAME] = Inr response
            \<and> collection_endpoint response = Inr (''https://'' @ rest) \<longrightarrow>
          calls (provisioner batch_get_collection indices_create) =
            [Boto3Client ''opensearchserverless'' ''eu-west-1'',
             BatchGetCollection [''quickbook-vectors''],
             OpenSearchClient rest 443,
             IndicesCreate ''textbook-index'' index_body])"
proof -
  have a: "str_replace ''https://'' [] rest = rest"
    using assms by (rule str_replace_absent)
  have b: "host_of (''https://'' @ rest) = rest"
    using a by (simp only: host_of_https)
  have c: "host_of rest = rest"
    using a by (simp only: host_of_def)
  have d: "strip_scheme_prefix (''https://'' @ rest) = rest"
    by (simp add: strip_scheme_prefix_def startswith_def)
  have e: "calls (provisioner batch_get_collection indices_create) =
            [Boto3Client ''opensearchserverless'' ''eu-west-1'',
             BatchGetCollection [''quickbook-vectors''],
             OpenSearchClient rest 443,
             IndicesCreate ''textbook-index'' index_body]"
    if "batch_get_collection [COLLECTION_NAME] = Inr response"
      "collection_endpoint response = Inr (''https://'' @ rest)"
    using provisioner_calls [where batch_get_collection = batch_get_collection, OF that] b by simp
  from b c d e show ?thesis by simp
qed

theorem host_of_strips_scheme_witness:
  "host_of ''https://abc123.eu-west-1.aoss.amazonaws.com'' = ''abc123.eu-west-1.aoss.amazonaws.com''
   \<and> calls (provisioner example_lookup (\<lambda>host name body. Inr created_response)) =
        [Boto3Client ''opensearchserverless'' ''eu-west-1'',
         BatchGetCollection [''quickbook-vectors''],
         OpenSearchClient ''abc123.eu-west-1.aoss.amazonaws.com'' 443,
         IndicesCreate ''textbook-index'' index_body]"
proof -
  have h: "\<not> str_contains ''https://'' ''abc123.eu-west-1.aoss.amazonaws.com''"
    by (simp add: startswith_def)
  show ?thesis
    using host_of_strips_scheme [OF h, where batch_get_collection = example_lookup
        and indices_create = "\<lambda>host name body. Inr created_response"
        and response = "\<lparr>collectionDetails =
          [[''collectionEndpoint'' \<mapsto> ''https://abc123.eu-west-1.aoss.amazonaws.com'']]\<rparr>"]
      example_endpoint
    by simp
qed

text \<open>
  C6 as stated fails where \<open>https://\<close> occurs again behind the prefix:
  \<open>str.replace\<close> deletes that occurrence too, so the remainder is not left as it is.
\<close>

theorem host_of_counterexample:
  "host_of ''https://a.example/https://b'' = ''a.example/b''
   \<and> strip_scheme_prefix ''https://a.example/https://b'' = ''a.example/https://b''
   \<and> host_of ''https://a.example/https://b'' \<noteq> strip_scheme_prefix ''https://a.example/https://b''
   \<and> OpenSearchClient ''a.example/b'' 443 \<in> set (calls (provisioner
        (\<lambda>names. Inr \<lparr>collectionDetails =
           [[''collectionEndpoint'' \<mapsto> ''https://a.example/https://b'']]\<rparr>)
        (\<lambda>host name body. Inr created_response)))"
  by (simp add: provisioner_def collection_endpoint_def host_of_def strip_scheme_prefix_def
      startswith_def)

text \<open>
  C10. The endpoint is read from the first collection detail alone; the expression
  has a value exactly when the list of details is not empty and its first element
  has the key \<open>collectionEndpoint\<close>; on an empty list it raises \<open>IndexError\<close>, and,
  standing outside the \<open>try\<close>, the exception ends the run uncaught: nothing is
  printed, no create call is made and the exit status is 1.
\<close>

theorem endpoint_needs_first_detail:
  "collection_endpoint \<lparr>collectionDetails = detail # details\<rparr>
     = collection_endpoint \<lparr>collectionDetails = [detail]\<rparr>
   \<and> ((\<exists>endpoint. collection_endpoint response = Inr endpoint) \<longleftrightarrow>
        (case collectionDetails response of
           [] \<Rightarrow> False
         | detail # details \<Rightarrow> detail ''collectionEndpoint'' \<noteq> None))
   \<and> (collectionDetails response = [] \<longrightarrow> collection_endpoint response = Inl IndexError)
   \<and> (batch_get_collection [COLLECTION_NAME] = Inr response \<and> collectionDetails response = []
        \<longrightarrow>
          provisioner batch_get_collection indices_create =
            \<lparr>stdout = [],
             calls = [Boto3Client ''opensearchserverless'' ''eu-west-1'',
                      BatchGetCollection [''quickbook-vectors'']],
             status = Uncaught IndexError\<rparr>
        \<and> exit_status (status (provisioner batch_get_collection indices_create)) = 1)"
proof -
  have a: "collection_endpoint \<lparr>collectionDetails = detail # details\<rparr>
     = collection_endpoint \<lparr>collectionDetails = [detail]\<rparr>"
    by (simp add: collection_endpoint_def)
  have b: "(\<exists>endpoint. collection_endpoint response = Inr endpoint) \<longleftrightarrow>
        (case collectionDetails response of
           [] \<Rightarrow> False
         | detail # details \<Rightarrow> detail ''collectionEndpoint'' \<noteq> None)"
    by (auto simp add: collection_endpoint_def split: list.splits option.splits)
  have c: "collection_endpoint response = Inl IndexError" if "collectionDetails response = []"
    using that by (simp add: collection_endpoint_def)
  have d: "provisioner batch_get_collection indices_create =
            \<lparr>stdout = [],
             calls = [Boto3Client ''opensearchserverless'' ''eu-west-1'',
                      BatchGetCollection [''quickbook-vectors'']],
             status = Uncaught IndexError\<rparr>"
    if "batch_get_collection [COLLECTION_NAME] = Inr response" "collectionDetails response = []"
    using that c by (simp add: provisioner_def Let_def REGION_def COLLECTION_NAME_def)
  from a b c d show ?thesis by simp
qed

theorem endpoint_needs_first_detail_witness:
  "provisioner empty_lookup (\<lambda>host name body. Inr created_response) =
     \<lparr>stdout = [],
      calls = [Boto3Client ''opensearchserverless'' ''eu-west-1'',
               BatchGetCollection [''quickbook-vectors'']],
      status = Uncaught IndexError\<rparr>
   \<and> collection_endpoint \<lparr>collectionDetails = [Map.empty]\<rparr> = Inl (KeyError ''collectionEndpoint'')
   \<and> collection_endpoint \<lparr>collectionDetails =
        [[''collectionEndpoint'' \<mapsto> ''https://abc123.eu-west-1.aoss.amazonaws.com''], Map.empty]\<rparr>
       = Inr ''https://abc123.eu-west-1.aoss.amazonaws.com''"
proof -
  have e: "empty_lookup [COLLECTION_NAME] = Inr \<lparr>collectionDetails = []\<rparr>"
    by (simp add: empty_lookup_def)
  have k: "collection_endpoint \<lparr>collectionDetails = [Map.empty]\<rparr> = Inl (KeyError ''collectionEndpoint'')"
    by (simp add: collection_endpoint_def)
  show ?thesis
    using endpoint_needs_first_detail [where batch_get_collection = empty_lookup
        and indices_create = "\<lambda>host name body. Inr created_response"
        and response = "\<lparr>collectionDetails = []\<rparr>"
        and detail = "[''collectionEndpoint'' \<mapsto> ''https://abc123.eu-west-1.aoss.amazonaws.com'']"
        and details = "[Map.empty]"]
      e k example_endpoint(2)
    by simp
qed

end
